theory Spec2Isabelle
  imports Complex_Main
begin

section \<open>Data model of the dashboard (src/app/page.tsx)\<close>

text \<open>
  A JavaScript \<open>number\<close> is kept as a real; the kill chain never computes with the
  figures, it only carries them and prints them. A field of type \<open>T | null\<close> is an
  option.
\<close>

type_synonym number = real

record StockData =
  companyName :: string
  ticker :: string
  currentPrice :: "number option"
  currency :: string
  peRatio :: "number option"
  forwardPE :: "number option"
  marketCap :: "number option"
  fiftyTwoWeekLow :: "number option"
  fiftyTwoWeekHigh :: "number option"
  revenue :: "number option"
  netIncome :: "number option"
  profitMargin :: "number option"
  roic :: "number option"
  businessSummary :: "string option"
  website :: "string option"

text \<open>\<open>interface StepResult { passed: boolean | null; notes: string }\<close>\<close>

record StepResult =
  passed :: "bool option"
  "notes" :: string

datatype BusinessVerdict = V_simple | V_complex
datatype MoatRating = R_strong | R_moderate | R_weak
datatype Grade = Grade_A | Grade_B | Grade_C | Grade_D | Grade_F
datatype ValuationVerdict = V_undervalued | V_fairly_valued | V_overvalued
datatype MarginOfSafety = M_high | M_moderate | M_low | M_none

record Step1Analysis =
  characteristics :: "string list"
  summary :: string
  verdict :: BusinessVerdict

record Step2Analysis =
  moatType :: string
  moatRating :: MoatRating
  evidence :: string
  threats :: string

text \<open>\<open>interface Step3Analysis\<close>\<close>

record Step3Analysis =
  grade :: Grade
  summary :: string
  concerns :: string
  "note" :: string

record Step4Analysis =
  verdict :: ValuationVerdict
  reasoning :: string
  marginOfSafety :: MarginOfSafety
  keyMetric :: string

section \<open>The hook \<open>useStepAnalysis\<close>\<close>

text \<open>
  The hook keeps \<open>analysis\<close>, \<open>loading\<close> and \<open>error\<close>. Three counters are added to
  observe it and are read by no transition: \<open>calls\<close> counts the requests sent to
  \<open>/api/analyze\<close>, \<open>pending\<close> the requests whose answer has not come back, \<open>failures\<close>
  the answers that ended in the \<open>catch\<close> branch.
\<close>

record 'a StepAnalysisState =
  analysis :: "'a option"
  loading :: bool
  error :: "string option"
  calls :: nat
  pending :: nat
  failures :: nat

definition initialStepAnalysis :: "'a StepAnalysisState" where
  "initialStepAnalysis =
     \<lparr>analysis = None, loading = False, error = None, calls = 0, pending = 0, failures = 0\<rparr>"

text \<open>
  What the awaited part of \<open>fetch_\<close> can end in: \<open>fetch\<close> or \<open>res.json()\<close> threw an
  \<open>Error\<close> with a message, something else was thrown, the response was not ok (with
  its \<open>json.error\<close>), or the response was ok with its body.
\<close>

datatype 'a FetchOutcome =
    Threw string
  | ThrewOther
  | NotOk "string option"
  | Ok 'a

text \<open>Truthiness of a \<open>string | null\<close>: null and the empty string are falsy.\<close>

definition truthy :: "string option \<Rightarrow> bool" where
  "truthy v = (case v of None \<Rightarrow> False | Some t \<Rightarrow> t \<noteq> [])"

text \<open>\<open>x || d\<close> on a \<open>string | null\<close>.\<close>

definition orElse :: "string option \<Rightarrow> string \<Rightarrow> string" where
  "orElse v d = (case v of None \<Rightarrow> d | Some t \<Rightarrow> if t = [] then d else t)"

text \<open>
  \<open>fetch_\<close> is split at its \<open>await\<close>: \<open>fetch_begin\<close> is what runs at once
  (\<open>setLoading(true); setError(null)\<close> and the request), \<open>fetch_settle\<close> what runs when
  the answer is there (\<open>setAnalysis\<close> or \<open>setError\<close>, then \<open>setLoading(false)\<close>).
\<close>

definition fetch_begin :: "'a StepAnalysisState \<Rightarrow> 'a StepAnalysisState" where
  "fetch_begin h = h\<lparr>loading := True, error := None, calls := calls h + 1, pending := pending h + 1\<rparr>"

text \<open>
  The message that the \<open>catch\<close> branch stores: \<open>err.message\<close> of an \<open>Error\<close> (for a
  response that is not ok, the \<open>Error\<close> made from \<open>json.error || notOkText\<close>), and
  \<open>otherText\<close> for anything else.
\<close>

definition caughtMessage :: "string \<Rightarrow> string \<Rightarrow> 'a FetchOutcome \<Rightarrow> string" where
  "caughtMessage notOkText otherText r =
     (case r of
        Threw m \<Rightarrow> m
      | ThrewOther \<Rightarrow> otherText
      | NotOk e \<Rightarrow> orElse e notOkText
      | Ok _ \<Rightarrow> otherText)"

definition fetch_settle :: "'a FetchOutcome \<Rightarrow> 'a StepAnalysisState \<Rightarrow> 'a StepAnalysisState" where
  "fetch_settle r h =
     (case r of
        Ok json \<Rightarrow> h\<lparr>analysis := Some json, loading := False, pending := pending h - 1\<rparr>
      | _ \<Rightarrow> h\<lparr>error := Some (caughtMessage ''Analysis failed'' ''Analysis failed'' r), loading := False,
               pending := pending h - 1, failures := failures h + 1\<rparr>)"

text \<open>The body of the hook's \<open>useEffect\<close>.\<close>

definition stepEffect :: "int \<Rightarrow> int \<Rightarrow> 'a StepAnalysisState \<Rightarrow> 'a StepAnalysisState" where
  "stepEffect step currentStep h =
     (if currentStep = step \<and> analysis h = None \<and> \<not> loading h then fetch_begin h else h)"

section \<open>State of \<open>Dashboard\<close> and of the mounted \<open>KillChainFlow\<close>\<close>

record KillChainFlow =
  showStep1Fail :: bool
  memoSaving :: bool
  memoSaved :: bool
  memoError :: "string option"
  s1 :: "Step1Analysis StepAnalysisState"
  s2 :: "Step2Analysis StepAnalysisState"
  s3 :: "Step3Analysis StepAnalysisState"
  s4 :: "Step4Analysis StepAnalysisState"

definition initialFlow :: KillChainFlow where
  "initialFlow =
     \<lparr>showStep1Fail = False, memoSaving = False, memoSaved = False, memoError = None,
      s1 = initialStepAnalysis, s2 = initialStepAnalysis,
      s3 = initialStepAnalysis, s4 = initialStepAnalysis\<rparr>"

text \<open>
  The kill-chain part of \<open>Dashboard\<close>'s state, with the local state of its child
  \<open>KillChainFlow\<close>: \<open>Some\<close> while the child is mounted, \<open>None\<close> otherwise. \<open>data\<close>
  is the record the last search left; searching itself is not part of the model.
\<close>

record Dashboard =
  data :: "StockData option"
  killChainActive :: bool
  killChainStep :: int
  stepResults :: "StepResult list"
  flow :: "KillChainFlow option"

definition initialDashboard :: "StockData option \<Rightarrow> Dashboard" where
  "initialDashboard d =
     \<lparr>data = d, killChainActive = False, killChainStep = 1, stepResults = [], flow = None\<rparr>"

subsection \<open>The handlers of \<open>Dashboard\<close>\<close>

definition startKillChain :: "Dashboard \<Rightarrow> Dashboard" where
  "startKillChain d = d\<lparr>killChainActive := True, killChainStep := 1, stepResults := []\<rparr>"

definition resetKillChain :: "Dashboard \<Rightarrow> Dashboard" where
  "resetKillChain d = d\<lparr>killChainActive := False, killChainStep := 1, stepResults := []\<rparr>"

definition handleStepPass :: "string \<Rightarrow> Dashboard \<Rightarrow> Dashboard" where
  "handleStepPass n d =
     d\<lparr>stepResults := stepResults d @ [\<lparr>passed = Some True, notes = n\<rparr>],
       killChainStep := killChainStep d + 1\<rparr>"

definition handleStepFail :: "string \<Rightarrow> Dashboard \<Rightarrow> Dashboard" where
  "handleStepFail n d =
     d\<lparr>stepResults := stepResults d @ [\<lparr>passed = Some False, notes = n\<rparr>],
       killChainStep := killChainStep d + 1\<rparr>"

definition handleStepUnsure :: "string \<Rightarrow> Dashboard \<Rightarrow> Dashboard" where
  "handleStepUnsure n d =
     d\<lparr>stepResults := stepResults d @ [\<lparr>passed = None, notes = n\<rparr>],
       killChainStep := killChainStep d + 1\<rparr>"

definition goToStep :: "int \<Rightarrow> Dashboard \<Rightarrow> Dashboard" where
  "goToStep step d =
     (let maxStep = min (int (length (stepResults d)) + 1) 5
      in if step \<ge> 1 \<and> step \<le> maxStep then d\<lparr>killChainStep := step\<rparr> else d)"

subsection \<open>The verdict\<close>

text \<open>\<open>stepResults.every((r) => r.passed === true)\<close>\<close>

definition allPassed :: "StepResult list \<Rightarrow> bool" where
  "allPassed rs = list_all (\<lambda>r. passed r = Some True) rs"

text \<open>The badge of the summary view.\<close>

definition summaryBadge :: "StepResult list \<Rightarrow> string" where
  "summaryBadge rs = (if allPassed rs then ''STRONG BUY CANDIDATE'' else ''DOES NOT PASS'')"

text \<open>\<open>stepResults[i]?.passed ?? null\<close>\<close>

definition passedAt :: "StepResult list \<Rightarrow> nat \<Rightarrow> bool option" where
  "passedAt rs i = (if i < length rs then passed (rs ! i) else None)"

record MemoBody =
  ticker :: string
  company_name :: string
  step1_passed :: "bool option"
  step1_analysis :: "Step1Analysis option"
  step2_passed :: "bool option"
  step2_analysis :: "Step2Analysis option"
  step3_passed :: "bool option"
  step3_analysis :: "Step3Analysis option"
  step4_passed :: "bool option"
  step4_analysis :: "Step4Analysis option"
  overall_verdict :: string
  stock_data :: StockData

text \<open>The body that the SAVE MEMO button posts to \<open>/api/memos\<close>.\<close>

definition memoBody :: "StockData \<Rightarrow> StepResult list \<Rightarrow> KillChainFlow \<Rightarrow> MemoBody" where
  "memoBody d rs f =
     \<lparr>ticker = StockData.ticker d,
      company_name = companyName d,
      step1_passed = passedAt rs 0,
      step1_analysis = analysis (s1 f),
      step2_passed = passedAt rs 1,
      step2_analysis = analysis (s2 f),
      step3_passed = passedAt rs 2,
      step3_analysis = analysis (s3 f),
      step4_passed = passedAt rs 3,
      step4_analysis = analysis (s4 f),
      overall_verdict = (if allPassed rs then ''STRONG BUY CANDIDATE'' else ''DOES NOT PASS''),
      stock_data = d\<rparr>"

section \<open>What the user can click and what comes back from the network\<close>

text \<open>
  One constructor per control of the kill-chain screens and per answer of a request.
  A decision button carries the notes its closure was rendered with.
  \<^item> \<open>ClickStart\<close>: RUN KILL CHAIN ANALYSIS (\<open>startKillChain\<close>);
  \<^item> \<open>ClickReset\<close>: BACK TO SEARCH and NEW ANALYSIS (\<open>onReset\<close>);
  \<^item> \<open>ClickGoTo n\<close>: every control wired to \<open>onGoToStep(n)\<close>;
  \<^item> \<open>ClickRetry k\<close>: the retry of step \<open>k\<close>'s error box (\<open>retry: fetch_\<close>);
  \<^item> \<open>ClickSaveMemo\<close>: SAVE MEMO;
  \<^item> \<open>ClickPass n\<close>: a PASS button, \<open>onPass(n)\<close>;
  \<^item> \<open>ClickFail n\<close>: FAIL of \<open>PassFailButtons\<close> (steps 2 to 4), \<open>onFail(n)\<close>;
  \<^item> \<open>ClickFail1 n\<close>: FAIL of step 1, \<open>onFail(n); setShowStep1Fail(true)\<close>;
  \<^item> \<open>ClickUnsure1 n\<close>: UNSURE of step 1, \<open>onUnsure(n); setShowStep1Fail(true)\<close>;
  \<^item> \<open>Analyzed1 r\<close> to \<open>Analyzed4 r\<close>: the request of hook \<open>s1\<close> to \<open>s4\<close> ended in \<open>r\<close>;
  \<^item> \<open>MemoPosted r\<close>: the request to \<open>/api/memos\<close> ended in \<open>r\<close>.
\<close>

datatype event =
    ClickStart
  | ClickReset
  | ClickGoTo int
  | ClickRetry int
  | ClickSaveMemo
  | ClickPass string
  | ClickFail string
  | ClickFail1 string
  | ClickUnsure1 string
  | Analyzed1 "Step1Analysis FetchOutcome"
  | Analyzed2 "Step2Analysis FetchOutcome"
  | Analyzed3 "Step3Analysis FetchOutcome"
  | Analyzed4 "Step4Analysis FetchOutcome"
  | MemoPosted "unit FetchOutcome"

fun isDecide :: "event \<Rightarrow> bool" where
  "isDecide (ClickPass n) = True"
| "isDecide (ClickFail n) = True"
| "isDecide (ClickFail1 n) = True"
| "isDecide (ClickUnsure1 n) = True"
| "isDecide ev = False"

text \<open>
  \<open>ProgressBar\<close>: of the segments 1 to 4, those with \<open>s <= activeStep && s !== currentStep\<close>
  are clickable (the bar and the labels under it call the same handler).
\<close>

definition progressBar :: "int \<Rightarrow> int \<Rightarrow> event list" where
  "progressBar currentStep activeStep =
     map ClickGoTo (filter (\<lambda>s. s \<le> activeStep \<and> s \<noteq> currentStep) [1, 2, 3, 4])"

text \<open>
  The part of a step's screen that depends on its hook: the error box with its retry
  when \<open>error\<close> is truthy, and, once the analysis is there, either \<open>ReviewActions\<close>
  (Continue goes to \<open>min(k + 1, activeStep)\<close>) or the decision buttons.
\<close>

definition stepControls ::
  "int \<Rightarrow> int \<Rightarrow> bool \<Rightarrow> 'a StepAnalysisState \<Rightarrow> ('a \<Rightarrow> event list) \<Rightarrow> event list" where
  "stepControls k activeStep isReviewing h decision =
     (if truthy (error h) then [ClickRetry k] else []) @
     (case analysis h of
        None \<Rightarrow> []
      | Some a \<Rightarrow> if isReviewing then [ClickGoTo (min (k + 1) activeStep)] else decision a)"

text \<open>The controls that \<open>KillChainFlow\<close> renders, in the order of its three returns.\<close>

definition flowControls :: "int \<Rightarrow> StepResult list \<Rightarrow> KillChainFlow \<Rightarrow> event list" where
  "flowControls step rs f =
     (let activeStep = int (length rs) + 1;
          isReviewing = (step < activeStep \<and> step \<le> 4)
      in if showStep1Fail f then [ClickReset]
         else if step = 5 then
           progressBar 5 5 @
           map (\<lambda>i. ClickGoTo (int i + 1)) [0..<length rs] @
           (if memoSaving f \<or> memoSaved f then [] else [ClickSaveMemo]) @
           [ClickReset]
         else
           progressBar step activeStep @
           (if step > 1 then [ClickGoTo (step - 1)] else []) @
           (if step = 1 then
              stepControls 1 activeStep isReviewing (s1 f)
                (\<lambda>a. [ClickPass (Step1Analysis.summary a),
                      ClickFail1 (Step1Analysis.summary a),
                      ClickUnsure1 (Step1Analysis.summary a)])
            else []) @
           (if step = 2 then
              stepControls 2 activeStep isReviewing (s2 f)
                (\<lambda>a. [ClickPass (evidence a), ClickFail (evidence a)])
            else []) @
           (if step = 3 then
              stepControls 3 activeStep isReviewing (s3 f)
                (\<lambda>a. [ClickPass (Step3Analysis.summary a), ClickFail (Step3Analysis.summary a)])
            else []) @
           (if step = 4 then
              stepControls 4 activeStep isReviewing (s4 f)
                (\<lambda>a. [ClickPass (reasoning a), ClickFail (reasoning a)])
            else []))"

text \<open>
  \<open>Dashboard\<close> renders \<open>KillChainFlow\<close> when \<open>killChainActive && data\<close>, and the search
  screen otherwise, whose button starts the kill chain once there is data.
\<close>

definition controls :: "Dashboard \<Rightarrow> event list" where
  "controls d =
     (if killChainActive d \<and> data d \<noteq> None then
        (case flow d of
           None \<Rightarrow> []
         | Some f \<Rightarrow> flowControls (killChainStep d) (stepResults d) f)
      else if data d \<noteq> None then [ClickStart] else [])"

datatype screen = SearchScreen | BuffettQuote | SummaryScreen string | StepScreen int

definition screen :: "Dashboard \<Rightarrow> screen" where
  "screen d =
     (if killChainActive d \<and> data d \<noteq> None then
        (case flow d of
           None \<Rightarrow> StepScreen (killChainStep d)
         | Some f \<Rightarrow>
             if showStep1Fail f then BuffettQuote
             else if killChainStep d = 5 then SummaryScreen (summaryBadge (stepResults d))
             else StepScreen (killChainStep d))
      else SearchScreen)"

text \<open>
  An answer can arrive only for a request that is out and only while the component that
  sent it is mounted (React drops the state updates of an unmounted component). The memo
  request is out exactly while \<open>memoSaving\<close> holds, since the button is disabled then.
\<close>

definition arrives :: "event \<Rightarrow> Dashboard \<Rightarrow> bool" where
  "arrives ev d =
     (case flow d of
        None \<Rightarrow> False
      | Some f \<Rightarrow>
          (case ev of
             Analyzed1 r \<Rightarrow> pending (s1 f) > 0
           | Analyzed2 r \<Rightarrow> pending (s2 f) > 0
           | Analyzed3 r \<Rightarrow> pending (s3 f) > 0
           | Analyzed4 r \<Rightarrow> pending (s4 f) > 0
           | MemoPosted r \<Rightarrow> memoSaving f
           | _ \<Rightarrow> False))"

definition offered :: "event \<Rightarrow> Dashboard \<Rightarrow> bool" where
  "offered ev d = (ev \<in> set (controls d) \<or> arrives ev d)"

subsection \<open>What each event does\<close>

definition inFlow :: "(KillChainFlow \<Rightarrow> KillChainFlow) \<Rightarrow> Dashboard \<Rightarrow> Dashboard" where
  "inFlow g d = d\<lparr>flow := map_option g (flow d)\<rparr>"

definition retry :: "int \<Rightarrow> KillChainFlow \<Rightarrow> KillChainFlow" where
  "retry k f =
     (if k = 1 then f\<lparr>s1 := fetch_begin (s1 f)\<rparr>
      else if k = 2 then f\<lparr>s2 := fetch_begin (s2 f)\<rparr>
      else if k = 3 then f\<lparr>s3 := fetch_begin (s3 f)\<rparr>
      else if k = 4 then f\<lparr>s4 := fetch_begin (s4 f)\<rparr>
      else f)"

definition saveMemo_begin :: "KillChainFlow \<Rightarrow> KillChainFlow" where
  "saveMemo_begin f = f\<lparr>memoSaving := True, memoError := None\<rparr>"

definition saveMemo_settle :: "unit FetchOutcome \<Rightarrow> KillChainFlow \<Rightarrow> KillChainFlow" where
  "saveMemo_settle r f =
     (case r of
        Ok _ \<Rightarrow> f\<lparr>memoSaved := True, memoSaving := False\<rparr>
      | _ \<Rightarrow> f\<lparr>memoError := Some (caughtMessage ''Failed to save'' ''Failed to save memo'' r),
               memoSaving := False\<rparr>)"

fun handle :: "event \<Rightarrow> Dashboard \<Rightarrow> Dashboard" where
  "handle ClickStart d = startKillChain d"
| "handle ClickReset d = resetKillChain d"
| "handle (ClickGoTo n) d = goToStep n d"
| "handle (ClickRetry k) d = inFlow (retry k) d"
| "handle ClickSaveMemo d = inFlow saveMemo_begin d"
| "handle (ClickPass n) d = handleStepPass n d"
| "handle (ClickFail n) d = handleStepFail n d"
| "handle (ClickFail1 n) d = inFlow (\<lambda>f. f\<lparr>showStep1Fail := True\<rparr>) (handleStepFail n d)"
| "handle (ClickUnsure1 n) d = inFlow (\<lambda>f. f\<lparr>showStep1Fail := True\<rparr>) (handleStepUnsure n d)"
| "handle (Analyzed1 r) d = inFlow (\<lambda>f. f\<lparr>s1 := fetch_settle r (s1 f)\<rparr>) d"
| "handle (Analyzed2 r) d = inFlow (\<lambda>f. f\<lparr>s2 := fetch_settle r (s2 f)\<rparr>) d"
| "handle (Analyzed3 r) d = inFlow (\<lambda>f. f\<lparr>s3 := fetch_settle r (s3 f)\<rparr>) d"
| "handle (Analyzed4 r) d = inFlow (\<lambda>f. f\<lparr>s4 := fetch_settle r (s4 f)\<rparr>) d"
| "handle (MemoPosted r) d = inFlow (saveMemo_settle r) d"

subsection \<open>Rendering after a state change\<close>

text \<open>
  After the handler, React renders: \<open>KillChainFlow\<close> is mounted with fresh local state
  when \<open>killChainActive && data\<close> has become true, keeps its state while it stays true,
  and is unmounted, its state lost, when it is false. Then the effects run: each hook's
  \<open>useEffect\<close> sees the new \<open>currentStep\<close>.
\<close>

definition mountFlow :: "Dashboard \<Rightarrow> Dashboard" where
  "mountFlow d =
     d\<lparr>flow :=
         (if killChainActive d \<and> data d \<noteq> None
          then Some (case flow d of None \<Rightarrow> initialFlow | Some f \<Rightarrow> f)
          else None)\<rparr>"

definition flowEffects :: "int \<Rightarrow> KillChainFlow \<Rightarrow> KillChainFlow" where
  "flowEffects currentStep f =
     f\<lparr>s1 := stepEffect 1 currentStep (s1 f),
       s2 := stepEffect 2 currentStep (s2 f),
       s3 := stepEffect 3 currentStep (s3 f),
       s4 := stepEffect 4 currentStep (s4 f)\<rparr>"

definition render :: "Dashboard \<Rightarrow> Dashboard" where
  "render d = inFlow (flowEffects (killChainStep d)) (mountFlow d)"

definition fire :: "event \<Rightarrow> Dashboard \<Rightarrow> Dashboard option" where
  "fire ev d = (if offered ev d then Some (render (handle ev d)) else None)"

fun run :: "event list \<Rightarrow> Dashboard \<Rightarrow> Dashboard option" where
  "run [] d = Some d"
| "run (ev # evs) d = (case fire ev d of None \<Rightarrow> None | Some d' \<Rightarrow> run evs d')"

section \<open>Invariants of the states that can be reached\<close>

text \<open>
  A hook is consistent when at most one request is out, \<open>loading\<close> says whether one is,
  no error is shown while loading or once the analysis is there, and every request sent
  is accounted for: it failed, it is still out, or it delivered the analysis.
\<close>

definition hookOK :: "'a StepAnalysisState \<Rightarrow> bool" where
  "hookOK h =
     (pending h \<le> 1 \<and> (loading h = (pending h = 1)) \<and>
      (if loading h then error h = None else True) \<and>
      (if analysis h = None then True else \<not> loading h \<and> error h = None) \<and>
      calls h = failures h + pending h + (if analysis h = None then 0 else 1))"

definition flowOK :: "int \<Rightarrow> StepResult list \<Rightarrow> KillChainFlow \<Rightarrow> bool" where
  "flowOK step rs f =
     (hookOK (s1 f) \<and> hookOK (s2 f) \<and> hookOK (s3 f) \<and> hookOK (s4 f) \<and>
      (if showStep1Fail f then step = 2 \<and> length rs = 1 else True))"

definition ledgerOK :: "Dashboard \<Rightarrow> bool" where
  "ledgerOK d =
     (1 \<le> killChainStep d \<and>
      killChainStep d \<le> int (length (stepResults d)) + 1 \<and>
      length (stepResults d) \<le> 4 \<and>
      list_all (\<lambda>r. passed r \<noteq> None) (tl (stepResults d)))"

definition wellFormed :: "Dashboard \<Rightarrow> bool" where
  "wellFormed d =
     (ledgerOK d \<and>
      ((flow d \<noteq> None) = (killChainActive d \<and> data d \<noteq> None)) \<and>
      (case flow d of None \<Rightarrow> True | Some f \<Rightarrow> flowOK (killChainStep d) (stepResults d) f))"

text \<open>
  The state between a handler and the rendering that follows it: the ledger is in order,
  and the child's state is, where the child will stay mounted.
\<close>

definition staged :: "Dashboard \<Rightarrow> bool" where
  "staged d =
     (ledgerOK d \<and>
      (if killChainActive d \<and> data d \<noteq> None
       then (case flow d of None \<Rightarrow> True | Some f \<Rightarrow> flowOK (killChainStep d) (stepResults d) f)
       else True))"

section \<open>The analyze endpoint (src/app/api/analyze/route.ts)\<close>

text \<open>
  Strings are lists of bytes; the one character of the source beyond ASCII is kept as the
  bytes the file holds. \<open>JSON.parse\<close>, the number printing of template literals and the
  text-generation client are parameters of the model: \<open>JSON_parse\<close> returns \<open>None\<close> where
  \<open>JSON.parse\<close> throws, and an object is the list of its keys and values, each key once.
\<close>

datatype json =
    JNull
  | JBool bool
  | JNumber number
  | JString string
  | JArray "json list"
  | JObject "(string \<times> json) list"

definition newline :: string where
  "newline = [CHR 0x0A]"

fun joinLines :: "string list \<Rightarrow> string" where
  "joinLines [] = []"
| "joinLines [l] = l"
| "joinLines (l # ls) = l @ newline @ joinLines ls"

subsection \<open>\<open>parseJSON\<close>\<close>

text \<open>
  \<open>\s\<close> of the two regular expressions, on ASCII: tab, line feed, vertical tab, form
  feed, carriage return and space.
\<close>

definition isSpace :: "char \<Rightarrow> bool" where
  "isSpace c = (c \<in> set [CHR 0x09, CHR 0x0A, CHR 0x0B, CHR 0x0C, CHR 0x0D, CHR 0x20])"

definition fence :: string where
  "fence = [CHR 0x60, CHR 0x60, CHR 0x60]"

text \<open>\<open>(?:json)?\<close> under the flag \<open>i\<close>.\<close>

definition skipJsonWord :: "string \<Rightarrow> string" where
  "skipJsonWord t =
     (case t of
        a # b # c # e # rest \<Rightarrow>
          if a \<in> set ''jJ'' \<and> b \<in> set ''sS'' \<and> c \<in> set ''oO'' \<and> e \<in> set ''nN'' then rest else t
      | _ \<Rightarrow> t)"

text \<open>
  The first \<open>replace\<close>: a fence at the very start, an optional \<open>json\<close> and the white
  space after it are removed (the greedy \<open>\s*\<close> leaves nothing for \<open>\n?\<close>).
\<close>

definition stripOpeningFence :: "string \<Rightarrow> string" where
  "stripOpeningFence raw =
     (if take 3 raw = fence then dropWhile isSpace (skipJsonWord (drop 3 raw)) else raw)"

text \<open>
  The second \<open>replace\<close> cuts the text at the leftmost place from which an optional line
  feed, a fence and white space reach the end of the text.
\<close>

definition closesText :: "string \<Rightarrow> bool" where
  "closesText t = (take 3 t = fence \<and> list_all isSpace (drop 3 t))"

fun stripClosingFence :: "string \<Rightarrow> string" where
  "stripClosingFence [] = []"
| "stripClosingFence (c # cs) =
     (if (c = CHR 0x0A \<and> closesText cs) \<or> closesText (c # cs) then []
      else c # stripClosingFence cs)"

definition parseJSON :: "(string \<Rightarrow> json option) \<Rightarrow> string \<Rightarrow> json option" where
  "parseJSON JSON_parse raw = JSON_parse (stripClosingFence (stripOpeningFence raw))"

subsection \<open>\<open>buildDataBlock\<close> and the four prompts\<close>

text \<open>\<open>${x ?? "N/A"}\<close> for a number \<open>x\<close>; \<open>str\<close> prints a number as a template literal does.\<close>

definition orNA :: "(number \<Rightarrow> string) \<Rightarrow> number option \<Rightarrow> string" where
  "orNA str v = (case v of None \<Rightarrow> ''N/A'' | Some x \<Rightarrow> str x)"

definition dataLines :: "(number \<Rightarrow> string) \<Rightarrow> StockData \<Rightarrow> string list" where
  "dataLines str stockData =
     [''Company: '' @ companyName stockData @ '' ('' @ StockData.ticker stockData @ '')'',
      ''Business Description: '' @ orElse (businessSummary stockData) ''Not available'',
      ''Current Price: '' @ orNA str (currentPrice stockData),
      ''Revenue: '' @ orNA str (revenue stockData),
      ''Net Income: '' @ orNA str (netIncome stockData),
      ''Profit Margin: '' @ orNA str (profitMargin stockData),
      ''Market Cap: '' @ orNA str (marketCap stockData),
      ''ROIC: '' @ orNA str (roic stockData),
      ''P/E (TTM): '' @ orNA str (peRatio stockData),
      ''Forward P/E: '' @ orNA str (forwardPE stockData),
      ''52-Week Low: '' @ orNA str (fiftyTwoWeekLow stockData),
      ''52-Week High: '' @ orNA str (fiftyTwoWeekHigh stockData)]"

definition buildDataBlock :: "(number \<Rightarrow> string) \<Rightarrow> StockData \<Rightarrow> string" where
  "buildDataBlock str stockData = joinLines (dataLines str stockData)"

definition userPrompt1 :: "(number \<Rightarrow> string) \<Rightarrow> StockData \<Rightarrow> string" where
  \<open>userPrompt1 str stockData =
     joinLines
      [''Analyze this company for a Buffett-style investment review.'',
       '''',
       buildDataBlock str stockData,
       '''',
       ''Return your analysis as JSON with exactly this structure:'',
       ''{'',
       ''  "characteristics": ["tag1", "tag2", "tag3"],'',
       ''  "summary": "Exactly 3 sentences max. How does this company make money? Written so a teenager gets it.",'',
       ''  "verdict": "simple" or "complex"'',
       ''}'',
       '''',
       ''Rules:'',
       ''- characteristics: 3-5 short tags describing the business model (e.g. "Asset-Light", "Brand-Led", "Franchise Model", "Pricing Power", "Global Reach", "Subscription", "Platform", "Hardware", "Commodity", "Regulated")'',
       ''- summary: Max 3 sentences. Plain English. How does the company actually make money?'',
       ''- verdict: "simple" if a smart teenager could explain this business after 5 minutes, "complex" if not'',
       '''',
       ''Return ONLY the JSON object, no markdown fences, no extra text.'']\<close>

definition userPrompt2 :: "(number \<Rightarrow> string) \<Rightarrow> StockData \<Rightarrow> string" where
  \<open>userPrompt2 str stockData =
     joinLines
      [''Evaluate the competitive moat of this company using Buffett's framework.'',
       '''',
       buildDataBlock str stockData,
       '''',
       ''Return your analysis as JSON with exactly this structure:'',
       ''{'',
       ''  "moatType": "one of: Brand Power, Network Effects, Switching Costs, Cost Advantage, Regulatory Moat, None Identified",'',
       ''  "moatRating": "strong" or "moderate" or "weak",'',
       ''  "evidence": "2-3 sentences explaining WHY this moat exists, with specific evidence from the data.",'',
       ''  "threats": "1-2 sentences on what could erode or destroy this moat."'',
       ''}'',
       '''',
       ''Rules:'',
       ''- moatType: pick the single most dominant moat source. Be specific.'',
       ''- moatRating: "strong" = nearly impossible to compete with, "moderate" = defensible but challenged, "weak" = little to no moat'',
       ''- evidence: Use actual numbers from the data (margins, ROIC, market cap) to support your claim. Be concrete.'',
       ''- threats: What realistic scenario could break this moat? Be honest.'',
       '''',
       ''Return ONLY the JSON object, no markdown fences, no extra text.'']\<close>

definition userPrompt3 :: "(number \<Rightarrow> string) \<Rightarrow> StockData \<Rightarrow> string" where
  \<open>userPrompt3 str stockData =
     joinLines
      [''Evaluate the management quality and capital allocation of this company.'',
       '''',
       buildDataBlock str stockData,
       '''',
       ''Return your analysis as JSON with exactly this structure:'',
       ''{'',
       ''  "grade": "A" or "B" or "C" or "D" or "F",'',
       ''  "summary": "2-3 sentences on management quality and capital allocation track record.",'',
       ''  "concerns": "1-2 sentences on any red flags or concerns about management.",'',
       ''  "note": "Full management analysis requires SEC filing integration (coming soon)"'',
       ''}'',
       '''',
       ''Rules:'',
       ''- grade: Based on what you can infer from the financial data about capital allocation skill. A = exceptional, B = good, C = average, D = poor, F = destructive'',
       ''- summary: Focus on what the numbers tell you about how management deploys capital. Are they generating good returns? Growing sensibly?'',
       ''- concerns: Be honest. If margins are thin or ROIC is low, say so. If you can't assess something, say that.'',
       (''- note: Always include the note field exactly as shown '' @ [CHR 0xC3, CHR 0xA2, CHR 0xE2, CHR 0x82, CHR 0xAC, CHR 0xE2, CHR 0x80, CHR 0x9D] @ '' this is a placeholder for future SEC filing analysis.''),
       '''',
       ''Return ONLY the JSON object, no markdown fences, no extra text.'']\<close>

definition userPrompt4 :: "(number \<Rightarrow> string) \<Rightarrow> StockData \<Rightarrow> string" where
  \<open>userPrompt4 str stockData =
     joinLines
      [''Evaluate whether this stock is attractively priced for a long-term Buffett-style investor.'',
       '''',
       buildDataBlock str stockData,
       '''',
       ''Return your analysis as JSON with exactly this structure:'',
       ''{'',
       ''  "verdict": "undervalued" or "fairly valued" or "overvalued",'',
       ''  "reasoning": "2-3 sentences explaining your valuation assessment. Reference specific metrics.",'',
       ''  "marginOfSafety": "high" or "moderate" or "low" or "none",'',
       ''  "keyMetric": "Name the single most important valuation metric for THIS specific company and explain in 1 sentence why it matters most."'',
       ''}'',
       '''',
       ''Rules:'',
       ''- verdict: Based on the current price relative to what the business earns and its growth prospects.'',
       ''- reasoning: Use the P/E, forward P/E, margins, and 52-week range to make your case. Be specific with numbers.'',
       ''- marginOfSafety: "high" = significant discount to intrinsic value, "moderate" = some cushion, "low" = slim margin, "none" = no margin of safety'',
       ''- keyMetric: What single metric should an investor focus on for this company? (e.g. "P/E ratio at 25x vs 10-year average of 22x suggests slight premium")'',
       '''',
       ''Return ONLY the JSON object, no markdown fences, no extra text.'']\<close>

subsection \<open>\<open>callClaude\<close> and the handlers\<close>

definition SYSTEM_PROMPT :: string where
  "SYSTEM_PROMPT = ''You are a senior investment analyst. You analyze businesses using Warren Buffett and Charlie Munger's framework. You are concise, opinionated, and direct. No fluff. No jargon unless necessary. A smart 16-year-old should understand your output.''"

datatype ContentBlock = TextBlock string | OtherBlock

text \<open>
  \<open>create system prompt\<close> stands for \<open>client.messages.create\<close>: the content of the
  message, or \<open>None\<close> when the call throws. Reading \<open>content[0].type\<close> of an empty
  content throws as well.
\<close>

definition callClaude ::
  "(string \<Rightarrow> string \<Rightarrow> ContentBlock list option) \<Rightarrow> string \<Rightarrow> string option" where
  "callClaude create userPrompt =
     (case create SYSTEM_PROMPT userPrompt of
        None \<Rightarrow> None
      | Some content \<Rightarrow>
          (case content of
             [] \<Rightarrow> None
           | TextBlock t # _ \<Rightarrow> Some t
           | OtherBlock # _ \<Rightarrow> Some []))"

record Response =
  status :: nat
  body :: "(string \<times> json) list"

definition errorResponse :: "nat \<Rightarrow> string \<Rightarrow> Response" where
  "errorResponse code message = \<lparr>status = code, body = [(''error'', JString message)]\<rparr>"

text \<open>
  \<open>parsed.key\<close>: \<open>None\<close> is \<open>undefined\<close>, which is what every value but an object with
  that key gives (the keys read here are no properties of arrays, strings, numbers or
  booleans). Reading a property of \<open>null\<close> throws; the handlers treat that case.
\<close>

fun property :: "json \<Rightarrow> string \<Rightarrow> json option" where
  "property (JObject kvs) k = map_of kvs k"
| "property v k = None"

text \<open>\<open>NextResponse.json(obj)\<close>: status 200; \<open>JSON.stringify\<close> leaves undefined properties out.\<close>

definition jsonResponse :: "(string \<times> json option) list \<Rightarrow> Response" where
  "jsonResponse props =
     \<lparr>status = 200, body = List.map_filter (\<lambda>(k, v). map_option (Pair k) v) props\<rparr>"

text \<open>
  The \<open>try\<close> block that the four handlers share but for the step number, the keys copied
  and the message of the \<open>catch\<close> branch.
\<close>

definition analyzeWith ::
  "(string \<Rightarrow> string \<Rightarrow> ContentBlock list option) \<Rightarrow> (string \<Rightarrow> json option) \<Rightarrow>
   string \<Rightarrow> int \<Rightarrow> string list \<Rightarrow> string \<Rightarrow> Response" where
  "analyzeWith create JSON_parse userPrompt step keys failure =
     (case callClaude create userPrompt of
        None \<Rightarrow> errorResponse 500 failure
      | Some t \<Rightarrow>
          (case parseJSON JSON_parse t of
             None \<Rightarrow> errorResponse 500 failure
           | Some JNull \<Rightarrow> errorResponse 500 failure
           | Some parsed \<Rightarrow>
               jsonResponse
                 ((''step'', Some (JNumber (of_int step))) # map (\<lambda>k. (k, property parsed k)) keys)))"

definition handleStep1 ::
  "(number \<Rightarrow> string) \<Rightarrow> (string \<Rightarrow> string \<Rightarrow> ContentBlock list option) \<Rightarrow>
   (string \<Rightarrow> json option) \<Rightarrow> StockData \<Rightarrow> Response" where
  "handleStep1 str create JSON_parse stockData =
     analyzeWith create JSON_parse (userPrompt1 str stockData) 1
       [''characteristics'', ''summary'', ''verdict''] ''Failed to analyze business''"

definition handleStep2 ::
  "(number \<Rightarrow> string) \<Rightarrow> (string \<Rightarrow> string \<Rightarrow> ContentBlock list option) \<Rightarrow>
   (string \<Rightarrow> json option) \<Rightarrow> StockData \<Rightarrow> Response" where
  "handleStep2 str create JSON_parse stockData =
     analyzeWith create JSON_parse (userPrompt2 str stockData) 2
       [''moatType'', ''moatRating'', ''evidence'', ''threats'']
       ''Failed to analyze competitive advantage''"

definition handleStep3 ::
  "(number \<Rightarrow> string) \<Rightarrow> (string \<Rightarrow> string \<Rightarrow> ContentBlock list option) \<Rightarrow>
   (string \<Rightarrow> json option) \<Rightarrow> StockData \<Rightarrow> Response" where
  "handleStep3 str create JSON_parse stockData =
     analyzeWith create JSON_parse (userPrompt3 str stockData) 3
       [''grade'', ''summary'', ''concerns'', ''note''] ''Failed to analyze management''"

definition handleStep4 ::
  "(number \<Rightarrow> string) \<Rightarrow> (string \<Rightarrow> string \<Rightarrow> ContentBlock list option) \<Rightarrow>
   (string \<Rightarrow> json option) \<Rightarrow> StockData \<Rightarrow> Response" where
  "handleStep4 str create JSON_parse stockData =
     analyzeWith create JSON_parse (userPrompt4 str stockData) 4
       [''verdict'', ''reasoning'', ''marginOfSafety'', ''keyMetric'']
       ''Failed to analyze valuation''"

text \<open>
  \<open>POST\<close>: the step of the request as an integer (0 is the falsy one) and its
  \<open>stockData\<close>, \<open>None\<close> when the request has none.
\<close>

definition POST_analyze ::
  "(number \<Rightarrow> string) \<Rightarrow> (string \<Rightarrow> string \<Rightarrow> ContentBlock list option) \<Rightarrow>
   (string \<Rightarrow> json option) \<Rightarrow> int \<Rightarrow> StockData option \<Rightarrow> Response" where
  "POST_analyze str create JSON_parse step stockData =
     (case stockData of
        None \<Rightarrow> errorResponse 400 ''step and stockData are required''
      | Some sd \<Rightarrow>
          if step = 0 then errorResponse 400 ''step and stockData are required''
          else if step = 1 then handleStep1 str create JSON_parse sd
          else if step = 2 then handleStep2 str create JSON_parse sd
          else if step = 3 then handleStep3 str create JSON_parse sd
          else if step = 4 then handleStep4 str create JSON_parse sd
          else errorResponse 400 ''Invalid step'')"

section \<open>The memo endpoint (src/app/api/memos/route.ts)\<close>

text \<open>
  \<open>getSupabase\<close> is \<open>Inl\<close> of the message of the error it threw, or \<open>Inr\<close> of the client;
  \<open>insertMemo\<close> stands for the insert-and-select of the client and is \<open>None\<close> when it reports
  an error.
\<close>

datatype 'row MemoResponse = MemoError nat string | MemoSaved 'row

definition POST_memos ::
  "(string + 'db) \<Rightarrow> ('db \<Rightarrow> MemoBody \<Rightarrow> 'row option) \<Rightarrow> MemoBody \<Rightarrow> 'row MemoResponse" where
  "POST_memos getSupabase insertMemo reqBody =
     (case getSupabase of
        Inl message \<Rightarrow> MemoError 503 message
      | Inr supabase \<Rightarrow>
          if MemoBody.ticker reqBody = [] \<or> company_name reqBody = [] then
            MemoError 400 ''ticker and company_name are required''
          else
            (case insertMemo supabase reqBody of
               None \<Rightarrow> MemoError 500 ''Failed to save memo''
             | Some row \<Rightarrow> MemoSaved row))"

section \<open>Speaking about the four hooks at once\<close>

text \<open>
  The four shapes of an analysis as one type, and the hook of step \<open>k\<close> seen at that
  type, so that a statement can range over the steps.
\<close>

datatype StepAnalysis =
    Business Step1Analysis
  | Moat Step2Analysis
  | Management Step3Analysis
  | Valuation Step4Analysis

definition asStepAnalysis ::
  "('a \<Rightarrow> StepAnalysis) \<Rightarrow> 'a StepAnalysisState \<Rightarrow> StepAnalysis StepAnalysisState" where
  "asStepAnalysis tag h =
     \<lparr>analysis = map_option tag (analysis h), loading = loading h, error = error h,
      calls = calls h, pending = pending h, failures = failures h\<rparr>"

definition hookOf :: "int \<Rightarrow> KillChainFlow \<Rightarrow> StepAnalysis StepAnalysisState" where
  "hookOf k f =
     (if k = 1 then asStepAnalysis Business (s1 f)
      else if k = 2 then asStepAnalysis Moat (s2 f)
      else if k = 3 then asStepAnalysis Management (s3 f)
      else asStepAnalysis Valuation (s4 f))"



section \<open>Sample inputs\<close>

text \<open>The fundamentals of the end-to-end scenario (ticker KO) and one analysis per step.\<close>

definition koData :: StockData where
  "koData =
     \<lparr>companyName = ''The Coca-Cola Company'', ticker = ''KO'', currentPrice = Some 62,
      currency = ''USD'', peRatio = Some 25, forwardPE = None, marketCap = None,
      fiftyTwoWeekLow = None, fiftyTwoWeekHigh = None, revenue = None, netIncome = None,
      profitMargin = Some 0.23, roic = Some 0.18, businessSummary = None, website = None\<rparr>"

definition sample1 :: Step1Analysis where
  "sample1 =
     \<lparr>characteristics = [''Brand-Led''], Step1Analysis.summary = ''Sells drinks.'',
      verdict = V_simple\<rparr>"

definition sample2 :: Step2Analysis where
  "sample2 =
     \<lparr>moatType = ''Brand Power'', moatRating = R_strong, evidence = ''High margins.'',
      threats = ''Health trends.''\<rparr>"

definition sample3 :: Step3Analysis where
  "sample3 =
     \<lparr>grade = Grade_B, Step3Analysis.summary = ''Steady allocators.'', concerns = ''None.'',
      note = ''Full management analysis requires SEC filing integration (coming soon)''\<rparr>"

definition sample4 :: Step4Analysis where
  "sample4 =
     \<lparr>Step4Analysis.verdict = V_fairly_valued, reasoning = ''P/E of 25.'',
      marginOfSafety = M_low, keyMetric = ''P/E''\<rparr>"




definition reviewingFlow :: KillChainFlow where
  "reviewingFlow =
     initialFlow
       \<lparr>s1 := \<lparr>analysis = Some sample1, loading = False, error = None,
                 calls = 1, pending = 0, failures = 0\<rparr>,
        s2 := \<lparr>analysis = None, loading = True, error = None,
                 calls = 1, pending = 1, failures = 0\<rparr>\<rparr>"

definition reviewingStep1 :: Dashboard where
  "reviewingStep1 =
     \<lparr>data = Some koData, killChainActive = True, killChainStep = 1,
      stepResults = [\<lparr>passed = Some True, notes = ''Sells drinks.''\<rparr>],
      flow = Some reviewingFlow\<rparr>"

definition completedFlow :: KillChainFlow where
  "completedFlow =
     initialFlow
       \<lparr>s1 := \<lparr>analysis = Some sample1, loading = False, error = None,
                 calls = 1, pending = 0, failures = 0\<rparr>,
        s2 := \<lparr>analysis = Some sample2, loading = False, error = None,
                 calls = 1, pending = 0, failures = 0\<rparr>,
        s3 := \<lparr>analysis = Some sample3, loading = False, error = None,
                 calls = 1, pending = 0, failures = 0\<rparr>,
        s4 := \<lparr>analysis = Some sample4, loading = False, error = None,
                 calls = 1, pending = 0, failures = 0\<rparr>\<rparr>"

definition completedRun :: Dashboard where
  "completedRun =
     \<lparr>data = Some koData, killChainActive = True, killChainStep = 5,
      stepResults =
        [\<lparr>passed = Some True, notes = ''Sells drinks.''\<rparr>,
         \<lparr>passed = Some True, notes = ''High margins.''\<rparr>,
         \<lparr>passed = Some False, notes = ''Steady allocators.''\<rparr>,
         \<lparr>passed = Some True, notes = ''P/E of 25.''\<rparr>],
      flow = Some completedFlow\<rparr>"

definition disqualifiedRun :: Dashboard where
  "disqualifiedRun =
     \<lparr>data = Some koData, killChainActive = True, killChainStep = 2,
      stepResults = [\<lparr>passed = None, notes = ''Sells drinks.''\<rparr>],
      flow = Some (initialFlow
        \<lparr>showStep1Fail := True,
         s1 := \<lparr>analysis = Some sample1, loading = False, error = None, calls = 1, pending = 0, failures = 0\<rparr>,
         s2 := \<lparr>analysis = None, loading = True, error = None, calls = 1, pending = 1, failures = 0\<rparr>\<rparr>)\<rparr>"

definition decidingStep1 :: Dashboard where
  "decidingStep1 =
     \<lparr>data = Some koData, killChainActive = True, killChainStep = 1,
      stepResults = [],
      flow = Some (initialFlow
        \<lparr>s1 := \<lparr>analysis = Some sample1, loading = False, error = None, calls = 1, pending = 0, failures = 0\<rparr>\<rparr>)\<rparr>"




section \<open>Reachable states are well formed\<close>


lemma hookOK_begin: "hookOK h \<Longrightarrow> analysis h = None \<Longrightarrow> \<not> loading h \<Longrightarrow> hookOK (fetch_begin h)"
  by (auto simp: hookOK_def fetch_begin_def)

lemma hookOK_settle: "hookOK h \<Longrightarrow> pending h > 0 \<Longrightarrow> hookOK (fetch_settle r h)"
  by (cases r) (auto simp: hookOK_def fetch_settle_def split: if_splits)

lemma hookOK_effect: "hookOK h \<Longrightarrow> hookOK (stepEffect k c h)"
  by (simp add: stepEffect_def hookOK_begin)

lemma hookOK_truthy: "hookOK h \<Longrightarrow> truthy (error h) \<Longrightarrow> analysis h = None \<and> \<not> loading h"
  by (auto simp: hookOK_def truthy_def split: if_splits option.splits)

lemma hookOK_initial: "hookOK initialStepAnalysis"
  by (simp add: hookOK_def initialStepAnalysis_def)

lemma decide_offered:
  assumes "ev \<in> set (controls d)" "isDecide ev"
  shows "\<exists>f. flow d = Some f \<and> \<not> showStep1Fail f \<and> killChainActive d \<and> data d \<noteq> None \<and>
     1 \<le> killChainStep d \<and> killChainStep d \<le> 4 \<and>
     int (length (stepResults d)) + 1 \<le> killChainStep d"
  using assms
  by (cases "flow d"; cases ev) (auto simp: controls_def flowControls_def stepControls_def progressBar_def Let_def
      split: if_splits option.splits)

lemma step1_decision_offered:
  assumes "ev \<in> set (controls d)" "ev = ClickFail1 n \<or> ev = ClickUnsure1 n"
  shows "killChainStep d = 1"
  using assms
  by (cases "flow d") (auto simp: controls_def flowControls_def stepControls_def progressBar_def Let_def
      split: if_splits option.splits)

lemma retry_offered:
  assumes "ClickRetry k \<in> set (controls d)"
  shows "\<exists>f. flow d = Some f \<and> killChainActive d \<and> data d \<noteq> None \<and>
     ((k = 1 \<and> truthy (error (s1 f))) \<or> (k = 2 \<and> truthy (error (s2 f))) \<or>
      (k = 3 \<and> truthy (error (s3 f))) \<or> (k = 4 \<and> truthy (error (s4 f))))"
  using assms
  by (cases "flow d") (auto simp: controls_def flowControls_def stepControls_def progressBar_def Let_def
      split: if_splits option.splits)

lemma save_offered:
  assumes "ClickSaveMemo \<in> set (controls d)"
  shows "\<exists>f. flow d = Some f \<and> killChainActive d \<and> data d \<noteq> None \<and> \<not> showStep1Fail f \<and> killChainStep d = 5 \<and>
     \<not> memoSaving f \<and> \<not> memoSaved f"
  using assms
  by (cases "flow d") (auto simp: controls_def flowControls_def stepControls_def progressBar_def Let_def
      split: if_splits option.splits)

lemma start_offered:
  assumes "ClickStart \<in> set (controls d)"
  shows "\<not> (killChainActive d \<and> data d \<noteq> None) \<and> data d \<noteq> None"
  using assms
  by (cases "flow d") (auto simp: controls_def flowControls_def stepControls_def progressBar_def Let_def
      split: if_splits option.splits)


lemma click_offered:
  assumes "ev \<in> set (controls d)" "ev \<noteq> ClickReset" "ev \<noteq> ClickStart"
  shows "\<exists>f. flow d = Some f \<and> \<not> showStep1Fail f \<and> killChainActive d \<and> data d \<noteq> None"
  using assms
  by (cases "flow d") (auto simp: controls_def flowControls_def split: if_splits)

lemma flowOK_initial: "flowOK step rs initialFlow"
  by (simp add: flowOK_def initialFlow_def hookOK_initial)

lemma flowOK_effects: "flowOK step rs f \<Longrightarrow> flowOK step rs (flowEffects c f)"
  by (simp add: flowOK_def flowEffects_def hookOK_effect)

lemma render_wellFormed: "staged d \<Longrightarrow> wellFormed (render d)"
  by (cases "flow d")
     (auto simp: staged_def wellFormed_def render_def mountFlow_def inFlow_def ledgerOK_def
        flowOK_initial flowOK_effects)

lemma tl_snoc_all: "list_all P (tl (rs @ [x])) = (rs = [] \<or> (list_all P (tl rs) \<and> P x))"
  by (cases rs) auto

lemma handle_staged:
  assumes wf: "wellFormed d" and off: "offered ev d"
  shows "staged (handle ev d)"
proof (cases ev)
  case ClickStart
  with off have "ClickStart \<in> set (controls d)" by (auto simp: offered_def arrives_def split: option.splits)
  from start_offered[OF this] wf have "flow d = None" by (auto simp: wellFormed_def)
  then show ?thesis using ClickStart by (simp add: staged_def startKillChain_def ledgerOK_def)
next
  case ClickReset
  then show ?thesis by (simp add: staged_def resetKillChain_def ledgerOK_def)
next
  case (ClickGoTo n)
  with off have m: "ClickGoTo n \<in> set (controls d)" by (auto simp: offered_def arrives_def split: option.splits)
  from click_offered[OF m] obtain f where f: "flow d = Some f" "\<not> showStep1Fail f" by auto
  from wf f have "flowOK (killChainStep d) (stepResults d) f" "ledgerOK d" by (auto simp: wellFormed_def)
  then show ?thesis using ClickGoTo f
    by (auto simp: staged_def goToStep_def Let_def ledgerOK_def flowOK_def)
next
  case (ClickRetry k)
  with off have m: "ClickRetry k \<in> set (controls d)" by (auto simp: offered_def arrives_def split: option.splits)
  from click_offered[OF m] obtain f where f: "flow d = Some f" "\<not> showStep1Fail f" by auto
  from wf f have ok: "flowOK (killChainStep d) (stepResults d) f" "ledgerOK d" by (auto simp: wellFormed_def)
  from retry_offered[OF m] f have
    "(k = 1 \<and> truthy (error (s1 f))) \<or> (k = 2 \<and> truthy (error (s2 f))) \<or>
      (k = 3 \<and> truthy (error (s3 f))) \<or> (k = 4 \<and> truthy (error (s4 f)))" by simp
  moreover from ok have h: "hookOK (s1 f)" "hookOK (s2 f)" "hookOK (s3 f)" "hookOK (s4 f)"
    by (auto simp: flowOK_def)
  ultimately have "flowOK (killChainStep d) (stepResults d) (retry k f)"
    using ok(1) f(2) hookOK_truthy[OF h(1)] hookOK_truthy[OF h(2)] hookOK_truthy[OF h(3)]
      hookOK_truthy[OF h(4)]
    by (auto simp: flowOK_def retry_def intro!: hookOK_begin)
  then show ?thesis using ClickRetry f ok
    by (simp add: staged_def inFlow_def ledgerOK_def)
next
  case ClickSaveMemo
  with off have m: "ClickSaveMemo \<in> set (controls d)" by (auto simp: offered_def arrives_def split: option.splits)
  from click_offered[OF m] obtain f where f: "flow d = Some f" "\<not> showStep1Fail f" by auto
  from wf f have ok: "flowOK (killChainStep d) (stepResults d) f" "ledgerOK d" by (auto simp: wellFormed_def)
  then show ?thesis using ClickSaveMemo f
    by (simp add: staged_def inFlow_def ledgerOK_def saveMemo_begin_def flowOK_def)
next
  case (ClickPass n)
  with off have m: "ev \<in> set (controls d)" "isDecide ev" by (auto simp: offered_def arrives_def split: option.splits)
  from decide_offered[OF m] obtain f where f: "flow d = Some f" "\<not> showStep1Fail f"
     "killChainStep d \<le> 4" "int (length (stepResults d)) + 1 \<le> killChainStep d" by auto
  from wf f have ok: "flowOK (killChainStep d) (stepResults d) f" "ledgerOK d" by (auto simp: wellFormed_def)
  then show ?thesis using ClickPass f
    by (auto simp: staged_def handleStepPass_def ledgerOK_def flowOK_def tl_snoc_all)
next
  case (ClickFail n)
  with off have m: "ev \<in> set (controls d)" "isDecide ev" by (auto simp: offered_def arrives_def split: option.splits)
  from decide_offered[OF m] obtain f where f: "flow d = Some f" "\<not> showStep1Fail f"
     "killChainStep d \<le> 4" "int (length (stepResults d)) + 1 \<le> killChainStep d" by auto
  from wf f have ok: "flowOK (killChainStep d) (stepResults d) f" "ledgerOK d" by (auto simp: wellFormed_def)
  then show ?thesis using ClickFail f
    by (auto simp: staged_def handleStepFail_def ledgerOK_def flowOK_def tl_snoc_all)
next
  case (ClickFail1 n)
  with off have m: "ev \<in> set (controls d)" "isDecide ev" by (auto simp: offered_def arrives_def split: option.splits)
  from decide_offered[OF m] obtain f where f: "flow d = Some f" "\<not> showStep1Fail f"
     "killChainStep d \<le> 4" "int (length (stepResults d)) + 1 \<le> killChainStep d" by auto
  from step1_decision_offered[OF m(1)] ClickFail1 have s: "killChainStep d = 1" by simp
  from wf f have ok: "flowOK (killChainStep d) (stepResults d) f" "ledgerOK d" by (auto simp: wellFormed_def)
  then show ?thesis using ClickFail1 f s
    by (auto simp: staged_def handleStepFail_def ledgerOK_def flowOK_def inFlow_def)
next
  case (ClickUnsure1 n)
  with off have m: "ev \<in> set (controls d)" "isDecide ev" by (auto simp: offered_def arrives_def split: option.splits)
  from decide_offered[OF m] obtain f where f: "flow d = Some f" "\<not> showStep1Fail f"
     "killChainStep d \<le> 4" "int (length (stepResults d)) + 1 \<le> killChainStep d" by auto
  from step1_decision_offered[OF m(1)] ClickUnsure1 have s: "killChainStep d = 1" by simp
  from wf f have ok: "flowOK (killChainStep d) (stepResults d) f" "ledgerOK d" by (auto simp: wellFormed_def)
  then show ?thesis using ClickUnsure1 f s
    by (auto simp: staged_def handleStepUnsure_def ledgerOK_def flowOK_def inFlow_def)
next
  case (Analyzed1 r)
  with off obtain f where f: "flow d = Some f" "pending (s1 f) > 0"
    by (cases "flow d") (auto simp: offered_def arrives_def controls_def flowControls_def stepControls_def progressBar_def Let_def split: option.splits if_splits)
  from wf f have ok: "flowOK (killChainStep d) (stepResults d) f" "ledgerOK d" by (auto simp: wellFormed_def)
  then show ?thesis using Analyzed1 f
    by (auto simp: staged_def inFlow_def flowOK_def hookOK_settle ledgerOK_def)
next
  case (Analyzed2 r)
  with off obtain f where f: "flow d = Some f" "pending (s2 f) > 0"
    by (cases "flow d") (auto simp: offered_def arrives_def controls_def flowControls_def stepControls_def progressBar_def Let_def split: option.splits if_splits)
  from wf f have ok: "flowOK (killChainStep d) (stepResults d) f" "ledgerOK d" by (auto simp: wellFormed_def)
  then show ?thesis using Analyzed2 f
    by (auto simp: staged_def inFlow_def flowOK_def hookOK_settle ledgerOK_def)
next
  case (Analyzed3 r)
  with off obtain f where f: "flow d = Some f" "pending (s3 f) > 0"
    by (cases "flow d") (auto simp: offered_def arrives_def controls_def flowControls_def stepControls_def progressBar_def Let_def split: option.splits if_splits)
  from wf f have ok: "flowOK (killChainStep d) (stepResults d) f" "ledgerOK d" by (auto simp: wellFormed_def)
  then show ?thesis using Analyzed3 f
    by (auto simp: staged_def inFlow_def flowOK_def hookOK_settle ledgerOK_def)
next
  case (Analyzed4 r)
  with off obtain f where f: "flow d = Some f" "pending (s4 f) > 0"
    by (cases "flow d") (auto simp: offered_def arrives_def controls_def flowControls_def stepControls_def progressBar_def Let_def split: option.splits if_splits)
  from wf f have ok: "flowOK (killChainStep d) (stepResults d) f" "ledgerOK d" by (auto simp: wellFormed_def)
  then show ?thesis using Analyzed4 f
    by (auto simp: staged_def inFlow_def flowOK_def hookOK_settle ledgerOK_def)
next
  case (MemoPosted r)
  with off obtain f where f: "flow d = Some f"
    by (cases "flow d") (auto simp: offered_def arrives_def controls_def flowControls_def stepControls_def progressBar_def Let_def split: option.splits if_splits)
  from wf f have ok: "flowOK (killChainStep d) (stepResults d) f" "ledgerOK d" by (auto simp: wellFormed_def)
  then show ?thesis using MemoPosted f
    by (cases r) (auto simp: staged_def inFlow_def flowOK_def saveMemo_settle_def ledgerOK_def)
qed

lemma fire_wellFormed: "wellFormed d \<Longrightarrow> fire ev d = Some d' \<Longrightarrow> wellFormed d'"
  by (auto simp: fire_def split: if_splits intro: render_wellFormed handle_staged)

lemma run_wellFormed: "wellFormed d \<Longrightarrow> run evs d = Some d' \<Longrightarrow> wellFormed d'"
  by (induction evs arbitrary: d) (auto split: option.splits dest: fire_wellFormed)

lemma initial_wellFormed: "wellFormed (initialDashboard sd)"
  by (simp add: wellFormed_def initialDashboard_def ledgerOK_def)

text \<open>Every state reached from the initial one is well formed.\<close>

lemma reach_wf: "run evs (initialDashboard sd) = Some d \<Longrightarrow> wellFormed d"
  using run_wellFormed[OF initial_wellFormed] by blast

text \<open>The definitions that evaluating a run on concrete inputs unfolds.\<close>

lemmas run_simps = fire_def offered_def controls_def flowControls_def stepControls_def progressBar_def
    arrives_def render_def mountFlow_def inFlow_def flowEffects_def stepEffect_def fetch_begin_def fetch_settle_def
    initialDashboard_def initialFlow_def initialStepAnalysis_def startKillChain_def resetKillChain_def handleStepPass_def
    handleStepFail_def handleStepUnsure_def goToStep_def retry_def saveMemo_begin_def saveMemo_settle_def
    sample1_def sample2_def sample3_def sample4_def truthy_def Let_def

lemma reviewingStep1_reached:
  "run [ClickStart, Analyzed1 (Ok sample1), ClickPass ''Sells drinks.'', ClickGoTo 1]
     (initialDashboard (Some koData)) = Some reviewingStep1"
  by (simp add: reviewingStep1_def reviewingFlow_def run_simps)

lemma decidingStep1_reached:
  "run [ClickStart, Analyzed1 (Ok sample1)] (initialDashboard (Some koData)) = Some decidingStep1"
  by (simp add: decidingStep1_def run_simps)


lemma completedRun_reached:
  "run [ClickStart, Analyzed1 (Ok sample1), ClickPass ''Sells drinks.'',
        Analyzed2 (Ok sample2), ClickPass ''High margins.'',
        Analyzed3 (Ok sample3), ClickFail ''Steady allocators.'',
        Analyzed4 (Ok sample4), ClickPass ''P/E of 25.'']
     (initialDashboard (Some koData)) = Some completedRun"
  by (simp add: completedRun_def completedFlow_def run_simps)



subsection \<open>Once step 1 has failed\<close>







subsection \<open>The hooks\<close>






lemma analysis_as [simp]: "(analysis (asStepAnalysis tag h) = None) = (analysis h = None)"
  by (simp add: asStepAnalysis_def)


lemma hookOf_others [simp]:
  "hookOf k (f\<lparr>showStep1Fail := b\<rparr>) = hookOf k f"
  "hookOf k (saveMemo_begin f) = hookOf k f"
  "hookOf k (saveMemo_settle r f) = hookOf k f"
  by (simp_all add: hookOf_def saveMemo_begin_def saveMemo_settle_def split: FetchOutcome.split)

















section \<open>The verdict, navigation and reset\<close>

text \<open>
  Claim C1. For any ledger, and so for the four outcomes of a completed run, the badge of
  the summary view is STRONG BUY CANDIDATE exactly when every outcome has
  \<open>passed = true\<close>; one outcome that is false or unsure (null) makes it DOES NOT PASS;
  and the verdict written into the body of the saved memo is the badge's.
\<close>

theorem overall_verdict_rule:
  "((summaryBadge rs = ''STRONG BUY CANDIDATE'') = (\<forall>r \<in> set rs. passed r = Some True)) \<and>
   ((\<exists>r \<in> set rs. passed r = Some False \<or> passed r = None) \<longrightarrow>
      summaryBadge rs = ''DOES NOT PASS'') \<and>
   overall_verdict (memoBody x rs f) = summaryBadge rs"
  by (auto simp: summaryBadge_def allPassed_def memoBody_def list_all_iff)

theorem overall_verdict_rule_witness:
  "summaryBadge (replicate 4 \<lparr>passed = Some True, notes = ''ok''\<rparr>) = ''STRONG BUY CANDIDATE'' \<and>
   summaryBadge
     [\<lparr>passed = Some True, notes = ''a''\<rparr>, \<lparr>passed = Some True, notes = ''b''\<rparr>,
      \<lparr>passed = Some False, notes = ''c''\<rparr>, \<lparr>passed = Some True, notes = ''d''\<rparr>] =
     ''DOES NOT PASS'' \<and>
   overall_verdict
     (memoBody koData
        [\<lparr>passed = Some True, notes = ''a''\<rparr>, \<lparr>passed = Some True, notes = ''b''\<rparr>,
         \<lparr>passed = Some False, notes = ''c''\<rparr>, \<lparr>passed = Some True, notes = ''d''\<rparr>]
        initialFlow) = ''DOES NOT PASS''"
  using
    overall_verdict_rule
      [of "replicate 4 \<lparr>passed = Some True, notes = ''ok''\<rparr>" koData initialFlow]
    overall_verdict_rule
      [of "[\<lparr>passed = Some True, notes = ''a''\<rparr>, \<lparr>passed = Some True, notes = ''b''\<rparr>,
            \<lparr>passed = Some False, notes = ''c''\<rparr>, \<lparr>passed = Some True, notes = ''d''\<rparr>]"
          koData initialFlow]
  by simp

text \<open>
  Claim C3. For every state and every integer \<open>n\<close>, \<open>goToStep\<close> sets the current step to
  \<open>n\<close> exactly when \<open>1 \<le> n \<le> min (outcomes + 1) 5\<close> and leaves the state as it is
  otherwise; the ledger is the same after it, also once the screen is rendered again.
\<close>

theorem goToStep_rule:
  "(1 \<le> n \<and> n \<le> min (int (length (stepResults d)) + 1) 5 \<longrightarrow>
      goToStep n d = d\<lparr>killChainStep := n\<rparr>) \<and>
   (\<not> (1 \<le> n \<and> n \<le> min (int (length (stepResults d)) + 1) 5) \<longrightarrow> goToStep n d = d) \<and>
   stepResults (goToStep n d) = stepResults d \<and>
   stepResults (render (goToStep n d)) = stepResults d"
  by (auto simp: goToStep_def Let_def render_def mountFlow_def inFlow_def)

theorem goToStep_rule_witness:
  "goToStep 1
     ((initialDashboard (Some koData))
        \<lparr>killChainStep := 2, stepResults := [\<lparr>passed = Some True, notes = ''a''\<rparr>]\<rparr>) =
     (initialDashboard (Some koData))
        \<lparr>killChainStep := 1, stepResults := [\<lparr>passed = Some True, notes = ''a''\<rparr>]\<rparr> \<and>
   goToStep 3
     ((initialDashboard (Some koData))
        \<lparr>killChainStep := 2, stepResults := [\<lparr>passed = Some True, notes = ''a''\<rparr>]\<rparr>) =
     (initialDashboard (Some koData))
        \<lparr>killChainStep := 2, stepResults := [\<lparr>passed = Some True, notes = ''a''\<rparr>]\<rparr>"
  using
    goToStep_rule
      [of 1 "(initialDashboard (Some koData))
               \<lparr>killChainStep := 2, stepResults := [\<lparr>passed = Some True, notes = ''a''\<rparr>]\<rparr>"]
    goToStep_rule
      [of 3 "(initialDashboard (Some koData))
               \<lparr>killChainStep := 2, stepResults := [\<lparr>passed = Some True, notes = ''a''\<rparr>]\<rparr>"]
  by (simp add: initialDashboard_def)

text \<open>
  Claim C5. From every state, \<open>resetKillChain\<close> and the rendering after it give the initial
  state: the ledger is empty, the current step is 1, and the child component is
  unmounted, which discards the analysis of every step. When the kill chain is started
  again the child is mounted afresh: no step has an analysis, and step 1's is requested
  anew.
\<close>

theorem reset_rule:
  "render (resetKillChain d) = initialDashboard (data d) \<and>
   stepResults (render (resetKillChain d)) = [] \<and>
   killChainStep (render (resetKillChain d)) = 1 \<and>
   flow (render (resetKillChain d)) = None \<and>
   (data d \<noteq> None \<longrightarrow>
      offered ClickStart (render (resetKillChain d)) \<and>
      flow (render (startKillChain (render (resetKillChain d)))) =
        Some (flowEffects 1 initialFlow) \<and>
      analysis (s1 (flowEffects 1 initialFlow)) = None \<and>
      analysis (s2 (flowEffects 1 initialFlow)) = None \<and>
      analysis (s3 (flowEffects 1 initialFlow)) = None \<and>
      analysis (s4 (flowEffects 1 initialFlow)) = None \<and>
      loading (s1 (flowEffects 1 initialFlow)) \<and>
      calls (s1 (flowEffects 1 initialFlow)) = 1)"
  by (auto simp: render_def resetKillChain_def startKillChain_def mountFlow_def inFlow_def
      initialDashboard_def flowEffects_def initialFlow_def stepEffect_def fetch_begin_def
      initialStepAnalysis_def offered_def controls_def)

theorem reset_rule_witness:
  "render
     (resetKillChain
        \<lparr>data = Some koData, killChainActive = True, killChainStep = 2,
         stepResults = [\<lparr>passed = Some False, notes = ''Sells drinks.''\<rparr>],
         flow = Some (initialFlow\<lparr>showStep1Fail := True\<rparr>)\<rparr>) =
     initialDashboard (Some koData) \<and>
   flow (render (startKillChain (initialDashboard (Some koData)))) =
     Some (flowEffects 1 initialFlow) \<and>
   calls (s1 (flowEffects 1 initialFlow)) = 1"
  using
    reset_rule
      [of "\<lparr>data = Some koData, killChainActive = True, killChainStep = 2,
            stepResults = [\<lparr>passed = Some False, notes = ''Sells drinks.''\<rparr>],
            flow = Some (initialFlow\<lparr>showStep1Fail := True\<rparr>)\<rparr>"]
  by (simp add: render_def resetKillChain_def startKillChain_def mountFlow_def inFlow_def
      initialDashboard_def)

section \<open>Deciding a step\<close>

text \<open>
  Claim C2, as stated, fails on the handlers: \<open>handleStepPass\<close>, \<open>handleStepFail\<close> and
  \<open>handleStepUnsure\<close> check nothing. In the state reached by passing step 1 and going
  back to look at it, the current step is 1 and the ledger has one outcome, and
  \<open>handleStepFail\<close> still appends a second outcome and moves the step to 2.
\<close>

theorem decide_unguarded_counterexample:
  "run [ClickStart, Analyzed1 (Ok sample1), ClickPass ''Sells drinks.'', ClickGoTo 1]
     (initialDashboard (Some koData)) = Some reviewingStep1 \<and>
   killChainStep reviewingStep1 \<noteq> int (length (stepResults reviewingStep1)) + 1 \<and>
   stepResults (handleStepFail ''again'' reviewingStep1) =
     [\<lparr>passed = Some True, notes = ''Sells drinks.''\<rparr>, \<lparr>passed = Some False, notes = ''again''\<rparr>] \<and>
   killChainStep (handleStepFail ''again'' reviewingStep1) = 2"
  by (simp add: reviewingStep1_def reviewingFlow_def run_simps)

text \<open>
  Claim C2, amended. The guard is in the view. In every reachable state whose current
  step is not the number of outcomes plus one, no decision button (pass, fail, unsure) is
  rendered, so no decide call can happen there; and wherever a decision button is
  rendered the current step is the number of outcomes plus one, and its handler appends
  one outcome to the ledger and adds one to the current step.
\<close>

theorem decide_only_at_active_step:
  assumes reach: "run evs (initialDashboard sd) = Some d" and dec: "isDecide ev"
  shows "(killChainStep d \<noteq> int (length (stepResults d)) + 1 \<longrightarrow>
            ev \<notin> set (controls d) \<and> fire ev d = None) \<and>
         (ev \<in> set (controls d) \<longrightarrow>
            killChainStep d = int (length (stepResults d)) + 1 \<and>
            length (stepResults (handle ev d)) = length (stepResults d) + 1 \<and>
            butlast (stepResults (handle ev d)) = stepResults d \<and>
            killChainStep (handle ev d) = killChainStep d + 1)"
proof -
  have wf: "wellFormed d" using reach by (rule reach_wf)
  have arr: "\<not> arrives ev d" using dec by (cases ev) (auto simp: arrives_def split: option.splits)
  have a: "ev \<in> set (controls d) \<Longrightarrow> killChainStep d = int (length (stepResults d)) + 1"
    using decide_offered[OF _ dec, of d] wf by (auto simp: wellFormed_def ledgerOK_def)
  have b: "length (stepResults (handle ev d)) = length (stepResults d) + 1 \<and>
            butlast (stepResults (handle ev d)) = stepResults d \<and>
            killChainStep (handle ev d) = killChainStep d + 1"
    using dec by (cases ev) (auto simp: handleStepPass_def handleStepFail_def handleStepUnsure_def inFlow_def)
  show ?thesis using a b arr by (auto simp: fire_def offered_def)
qed

theorem decide_only_at_active_step_witness:
  "isDecide (ClickFail ''again'') \<and>
   killChainStep reviewingStep1 \<noteq> int (length (stepResults reviewingStep1)) + 1 \<and>
   ClickFail ''again'' \<notin> set (controls reviewingStep1) \<and>
   fire (ClickFail ''again'') reviewingStep1 = None"
  using decide_only_at_active_step [OF reviewingStep1_reached, of "ClickFail ''again''"]
  by (simp add: reviewingStep1_def reviewingFlow_def)

text \<open>
  Claim C10. In every reachable state the outcomes at positions 2 to 4 of the ledger are
  pass or fail, never unsure; and the decision buttons of a step other than step 1 are
  PASS and FAIL of \<open>PassFailButtons\<close> only, the UNSURE button being rendered for step 1
  alone.
\<close>

theorem unsure_only_at_step1:
  assumes reach: "run evs (initialDashboard sd) = Some d"
  shows "(\<forall>i. 1 \<le> i \<and> i < length (stepResults d) \<longrightarrow>
            passed (stepResults d ! i) = Some True \<or> passed (stepResults d ! i) = Some False) \<and>
         (\<forall>ev \<in> set (controls d). isDecide ev \<longrightarrow>
            (if killChainStep d = 1 then \<exists>n. ev = ClickPass n \<or> ev = ClickFail1 n \<or> ev = ClickUnsure1 n
             else \<exists>n. ev = ClickPass n \<or> ev = ClickFail n))"
proof -
  have wf: "wellFormed d" using reach by (rule reach_wf)
  then have all: "list_all (\<lambda>r. passed r \<noteq> None) (tl (stepResults d))"
    by (simp add: wellFormed_def ledgerOK_def)
  have a: "passed (stepResults d ! i) = Some True \<or> passed (stepResults d ! i) = Some False"
    if "1 \<le> i" "i < length (stepResults d)" for i
  proof -
    from that have "stepResults d ! i = tl (stepResults d) ! (i - 1)" "i - 1 < length (tl (stepResults d))"
      by (cases "stepResults d"; cases i; simp)+
    with all have "passed (stepResults d ! i) \<noteq> None"
      by (simp add: list_all_length)
    then show ?thesis by (cases "passed (stepResults d ! i)") auto
  qed
  have b: "if killChainStep d = 1 then \<exists>n. ev = ClickPass n \<or> ev = ClickFail1 n \<or> ev = ClickUnsure1 n
             else \<exists>n. ev = ClickPass n \<or> ev = ClickFail n"
    if "ev \<in> set (controls d)" "isDecide ev" for ev
    using that
    by (cases "flow d"; cases ev)
       (auto simp: controls_def flowControls_def stepControls_def progressBar_def Let_def
          split: if_splits option.splits)
  show ?thesis using a b by blast
qed

theorem unsure_only_at_step1_witness:
  "passed (stepResults completedRun ! 2) = Some False \<and>
   passed (stepResults disqualifiedRun ! 0) = None \<and>
   controls decidingStep1 =
     [ClickPass ''Sells drinks.'', ClickFail1 ''Sells drinks.'', ClickUnsure1 ''Sells drinks.'']"
  using unsure_only_at_step1 [OF completedRun_reached] unsure_only_at_step1 [OF decidingStep1_reached]
  by (simp add: completedRun_def disqualifiedRun_def decidingStep1_def sample1_def run_simps)

section \<open>Early termination\<close>



section \<open>Saving the memo\<close>

text \<open>
  Claim C9, as stated, fails: nothing checks the number of outcomes. The body built from
  a ledger of one passed outcome has the verdict STRONG BUY CANDIDATE and null for steps
  2 to 4, and the endpoint, with a store that accepts it, saves it.
\<close>

theorem memo_unchecked_counterexample:
  "POST_memos (Inr ()) (\<lambda>db b. Some b)
     (memoBody koData [\<lparr>passed = Some True, notes = ''Sells drinks.''\<rparr>] initialFlow) =
   MemoSaved
     \<lparr>ticker = ''KO'', company_name = ''The Coca-Cola Company'',
      step1_passed = Some True, step1_analysis = None,
      step2_passed = None, step2_analysis = None,
      step3_passed = None, step3_analysis = None,
      step4_passed = None, step4_analysis = None,
      overall_verdict = ''STRONG BUY CANDIDATE'', stock_data = koData\<rparr>"
  by (simp add: POST_memos_def memoBody_def passedAt_def allPassed_def koData_def initialFlow_def
      initialStepAnalysis_def)

text \<open>
  Claim C9, amended. SAVE MEMO is rendered in the summary view only, and in every
  reachable state that renders it the ledger has exactly four outcomes; the body it
  posts carries the four outcomes and the verdict of the badge. The endpoint has no
  incomplete-state error: with the store at hand it refuses a body only for an empty
  ticker or company name (400) and otherwise answers what the insert gives (the row, or
  500).
\<close>

theorem memo_saved_from_summary_only:
  assumes reach: "run evs (initialDashboard sd) = Some d"
    and save: "ClickSaveMemo \<in> set (controls d)"
  shows "length (stepResults d) = 4 \<and> killChainStep d = 5 \<and>
         (case (data d, flow d) of
            (Some x, Some f) \<Rightarrow>
              screen d = SummaryScreen (summaryBadge (stepResults d)) \<and>
              overall_verdict (memoBody x (stepResults d) f) = summaryBadge (stepResults d) \<and>
              step1_passed (memoBody x (stepResults d) f) = passed (stepResults d ! 0) \<and>
              step2_passed (memoBody x (stepResults d) f) = passed (stepResults d ! 1) \<and>
              step3_passed (memoBody x (stepResults d) f) = passed (stepResults d ! 2) \<and>
              step4_passed (memoBody x (stepResults d) f) = passed (stepResults d ! 3) \<and>
              (if StockData.ticker x = [] \<or> companyName x = [] then
                 POST_memos (Inr db) ins (memoBody x (stepResults d) f) =
                   MemoError 400 ''ticker and company_name are required''
               else
                 POST_memos (Inr db) ins (memoBody x (stepResults d) f) =
                   (case ins db (memoBody x (stepResults d) f) of
                      None \<Rightarrow> MemoError 500 ''Failed to save memo''
                    | Some row \<Rightarrow> MemoSaved row))
          | _ \<Rightarrow> False)"
proof -
  have wf: "wellFormed d" using reach by (rule reach_wf)
  from save_offered[OF save] obtain f where f: "flow d = Some f" "killChainActive d"
    "data d \<noteq> None" "\<not> showStep1Fail f" "killChainStep d = 5" by auto
  from f(3) obtain x where x: "data d = Some x" by auto
  from wf f(5) have len: "length (stepResults d) = 4" by (auto simp: wellFormed_def ledgerOK_def)
  show ?thesis using f x len
    by (simp add: screen_def memoBody_def passedAt_def summaryBadge_def POST_memos_def)
qed

theorem memo_saved_from_summary_only_witness:
  "ClickSaveMemo \<in> set (controls completedRun) \<and>
   length (stepResults completedRun) = 4 \<and>
   screen completedRun = SummaryScreen ''DOES NOT PASS'' \<and>
   overall_verdict (memoBody koData (stepResults completedRun) completedFlow) = ''DOES NOT PASS'' \<and>
   step3_passed (memoBody koData (stepResults completedRun) completedFlow) = Some False"
  using memo_saved_from_summary_only [OF completedRun_reached, of "()" "\<lambda>db b. Some b"]
  by (simp add: completedRun_def completedFlow_def controls_def flowControls_def progressBar_def
      initialFlow_def summaryBadge_def allPassed_def)

section \<open>Deriving an analysis once\<close>



section \<open>The analyze endpoint\<close>











end
